theory Spec2Isabelle
  imports Main "HOL-Library.Sublist"
begin

section \<open>The test server of \<^verbatim>\<open>simple_test_server.py\<close>\<close>

text \<open>
  The program is one request handler class, \<^verbatim>\<open>TestHandler\<close>, with two methods
  \<^verbatim>\<open>do_GET\<close> and \<^verbatim>\<open>do_POST\<close>. Each of them sends status 200 and two headers, picks a
  Python dict by an \<^verbatim>\<open>if/elif\<close> chain over \<^verbatim>\<open>self.path\<close>, and writes
  \<^verbatim>\<open>json.dumps(response, indent=2).encode()\<close> to the connection.
\<close>

subsection \<open>Values handed to json.dumps\<close>

text \<open>
  The dicts of the source hold strings, lists, \<^verbatim>\<open>None\<close> and nothing else. A dict keeps
  its keys in insertion order, so it is an association list; no dict literal of the source
  repeats a key.
\<close>

datatype json =
    JNull
  | JStr string
  | JList "json list"
  | JDict "(string \<times> json) list"

fun keys_of :: "json \<Rightarrow> string list" where
  "keys_of (JDict kvs) = map fst kvs"
| "keys_of JNull = []"
| "keys_of (JStr s) = []"
| "keys_of (JList xs) = []"

subsection \<open>Python's str.startswith and str.endswith\<close>

text \<open>
  \<^verbatim>\<open>self.path\<close> is the request target as received, query string included. The library
  decodes the request line as ISO-8859-1, so every character of the path is one of 256
  code points, as a \<^typ>\<open>char\<close> is.
\<close>

definition startswith :: "string \<Rightarrow> string \<Rightarrow> bool" where
  "startswith s pre = prefix pre s"

definition endswith :: "string \<Rightarrow> string \<Rightarrow> bool" where
  "endswith s suf = suffix suf s"

subsection \<open>What a handler method sends\<close>

text \<open>
  \<open>status\<close> is the argument of \<^verbatim>\<open>send_response\<close>, \<open>headers\<close> are the
  \<^verbatim>\<open>send_header\<close> calls in order, and \<open>body\<close> is the dict that is serialised and
  written after \<^verbatim>\<open>end_headers\<close>.
\<close>

record http_response =
  status :: nat
  headers :: "(string \<times> string) list"
  body :: json

subsection \<open>\<^verbatim>\<open>TestHandler.do_GET\<close>\<close>

text \<open>
  The first argument is the text \<^verbatim>\<open>datetime.now().isoformat()\<close> evaluates to while the
  request is handled: the clock is the handler's only input besides the path.
\<close>

definition do_GET :: "string \<Rightarrow> string \<Rightarrow> http_response" where
  "do_GET now path =
    \<lparr> status = 200,
      headers = [(''Content-type'', ''application/json''),
                 (''Access-Control-Allow-Origin'', ''*'')],
      body =
       (if path = ''/health'' then
          JDict [(''status'', JStr ''ok''),
                 (''message'', JStr ''Health check passed''),
                 (''timestamp'', JStr now)]
        else if path = ''/api/v1/instance'' then
          JDict [(''version'', JStr ''1.0.0''),
                 (''name'', JStr ''Rustodon Test Server''),
                 (''description'', JStr ''Test server for API validation'')]
        else if path = ''/api/v1/timelines/public'' then
          JDict [(''statuses'', JList []), (''next'', JNull), (''prev'', JNull)]
        else if startswith path ''/api/v1/accounts/'' then
          JDict [(''id'', JStr ''1''),
                 (''username'', JStr ''testuser''),
                 (''display_name'', JStr ''Test User''),
                 (''created_at'', JStr ''2025-01-01T00:00:00Z'')]
        else if startswith path ''/api/v1/search'' then
          JDict [(''accounts'', JList []), (''statuses'', JList []), (''hashtags'', JList [])]
        else
          JDict [(''message'', JStr ''Welcome to Rustodon Test Server''),
                 (''endpoints'',
                    JList [JStr ''/health'',
                           JStr ''/api/v1/instance'',
                           JStr ''/api/v1/timelines/public'',
                           JStr ''/api/v1/accounts/1'',
                           JStr ''/api/v1/search?q=test''])]) \<rparr>"

subsection \<open>\<^verbatim>\<open>TestHandler.do_POST\<close>\<close>

definition do_POST :: "string \<Rightarrow> string \<Rightarrow> http_response" where
  "do_POST now path =
    \<lparr> status = 200,
      headers = [(''Content-type'', ''application/json''),
                 (''Access-Control-Allow-Origin'', ''*'')],
      body =
       (if path = ''/api/v1/auth/register'' then
          JDict [(''token'', JStr ''test_token_123''),
                 (''user_id'', JStr ''1''),
                 (''message'', JStr ''Registration successful'')]
        else if path = ''/api/v1/auth/login'' then
          JDict [(''token'', JStr ''test_token_123''),
                 (''user_id'', JStr ''1''),
                 (''message'', JStr ''Login successful'')]
        else if path = ''/api/v1/statuses'' then
          JDict [(''id'', JStr ''1''),
                 (''content'', JStr ''Test status''),
                 (''created_at'', JStr now)]
        else if path = ''/api/v1/media'' then
          JDict [(''id'', JStr ''1''),
                 (''type'', JStr ''image''),
                 (''url'', JStr ''https://example.com/test.jpg'')]
        else if path = ''/api/v1/notifications'' then
          JDict [(''notifications'', JList [])]
        else if endswith path ''/follow'' then
          JDict [(''message'', JStr ''Follow successful'')]
        else if endswith path ''/unfollow'' then
          JDict [(''message'', JStr ''Unfollow successful'')]
        else if endswith path ''/favourite'' then
          JDict [(''message'', JStr ''Favourite successful'')]
        else if endswith path ''/unfavourite'' then
          JDict [(''message'', JStr ''Unfavourite successful'')]
        else if endswith path ''/reblog'' then
          JDict [(''message'', JStr ''Reblog successful'')]
        else if endswith path ''/unreblog'' then
          JDict [(''message'', JStr ''Unreblog successful'')]
        else if path = ''/api/v1/lists'' then
          JDict [(''lists'', JList [])]
        else if path = ''/api/v1/conversations'' then
          JDict [(''conversations'', JList [])]
        else if path = ''/api/v1/bookmarks'' then
          JDict [(''bookmarks'', JList [])]
        else if path = ''/api/v1/mutes'' then
          JDict [(''mutes'', JList [])]
        else if path = ''/api/v1/blocks'' then
          JDict [(''blocks'', JList [])]
        else if path = ''/api/v1/reports'' then
          JDict [(''reports'', JList [])]
        else if path = ''/api/v1/filters'' then
          JDict [(''filters'', JList [])]
        else
          JDict [(''error'', JStr ''Endpoint not implemented''), (''path'', JStr path)]) \<rparr>"

subsection \<open>The dispatcher\<close>

text \<open>
  The base class calls the method named after the request's command. The class defines
  the two methods above and no other, and the dispatcher's contract covers these two
  commands.
\<close>

datatype http_method = GET | POST

fun handle_request :: "http_method \<Rightarrow> string \<Rightarrow> string \<Rightarrow> http_response" where
  "handle_request GET now path = do_GET now path"
| "handle_request POST now path = do_POST now path"

section \<open>The dispatch table of the specification\<close>

text \<open>
  The specification describes the dispatcher as an ordered table of rules, each a path
  predicate (equals, starts with, ends with) with a response, evaluated in sequence: the
  first rule whose predicate matches wins, and a fallback answers when none does.
\<close>

datatype pattern = Exact string | Prefix string | Suffix string

fun matches :: "pattern \<Rightarrow> string \<Rightarrow> bool" where
  "matches (Exact s) path = (path = s)"
| "matches (Prefix s) path = startswith path s"
| "matches (Suffix s) path = endswith path s"

fun first_match :: "(pattern \<times> json) list \<Rightarrow> json \<Rightarrow> string \<Rightarrow> json" where
  "first_match [] fallback path = fallback"
| "first_match ((pat, response) # rules) fallback path =
     (if matches pat path then response else first_match rules fallback path)"

text \<open>
  The POST table in the order the specification states: the twelve exact rules, then the
  six suffix rules. The source tests the six suffixes after the fifth exact path.
\<close>

definition spec_POST_rules :: "string \<Rightarrow> (pattern \<times> json) list" where
  "spec_POST_rules now =
    [(Exact ''/api/v1/auth/register'',
        JDict [(''token'', JStr ''test_token_123''),
               (''user_id'', JStr ''1''),
               (''message'', JStr ''Registration successful'')]),
     (Exact ''/api/v1/auth/login'',
        JDict [(''token'', JStr ''test_token_123''),
               (''user_id'', JStr ''1''),
               (''message'', JStr ''Login successful'')]),
     (Exact ''/api/v1/statuses'',
        JDict [(''id'', JStr ''1''),
               (''content'', JStr ''Test status''),
               (''created_at'', JStr now)]),
     (Exact ''/api/v1/media'',
        JDict [(''id'', JStr ''1''),
               (''type'', JStr ''image''),
               (''url'', JStr ''https://example.com/test.jpg'')]),
     (Exact ''/api/v1/notifications'', JDict [(''notifications'', JList [])]),
     (Exact ''/api/v1/lists'', JDict [(''lists'', JList [])]),
     (Exact ''/api/v1/conversations'', JDict [(''conversations'', JList [])]),
     (Exact ''/api/v1/bookmarks'', JDict [(''bookmarks'', JList [])]),
     (Exact ''/api/v1/mutes'', JDict [(''mutes'', JList [])]),
     (Exact ''/api/v1/blocks'', JDict [(''blocks'', JList [])]),
     (Exact ''/api/v1/reports'', JDict [(''reports'', JList [])]),
     (Exact ''/api/v1/filters'', JDict [(''filters'', JList [])]),
     (Suffix ''/follow'', JDict [(''message'', JStr ''Follow successful'')]),
     (Suffix ''/unfollow'', JDict [(''message'', JStr ''Unfollow successful'')]),
     (Suffix ''/favourite'', JDict [(''message'', JStr ''Favourite successful'')]),
     (Suffix ''/unfavourite'', JDict [(''message'', JStr ''Unfavourite successful'')]),
     (Suffix ''/reblog'', JDict [(''message'', JStr ''Reblog successful'')]),
     (Suffix ''/unreblog'', JDict [(''message'', JStr ''Unreblog successful'')])]"

definition spec_POST :: "string \<Rightarrow> string \<Rightarrow> json" where
  "spec_POST now path =
     first_match (spec_POST_rules now)
       (JDict [(''error'', JStr ''Endpoint not implemented''), (''path'', JStr path)]) path"

text \<open>The GET table, in the order of the specification, which is the order of the source.\<close>

definition spec_GET_rules :: "string \<Rightarrow> (pattern \<times> json) list" where
  "spec_GET_rules now =
    [(Exact ''/health'',
        JDict [(''status'', JStr ''ok''),
               (''message'', JStr ''Health check passed''),
               (''timestamp'', JStr now)]),
     (Exact ''/api/v1/instance'',
        JDict [(''version'', JStr ''1.0.0''),
               (''name'', JStr ''Rustodon Test Server''),
               (''description'', JStr ''Test server for API validation'')]),
     (Exact ''/api/v1/timelines/public'',
        JDict [(''statuses'', JList []), (''next'', JNull), (''prev'', JNull)]),
     (Prefix ''/api/v1/accounts/'',
        JDict [(''id'', JStr ''1''),
               (''username'', JStr ''testuser''),
               (''display_name'', JStr ''Test User''),
               (''created_at'', JStr ''2025-01-01T00:00:00Z'')]),
     (Prefix ''/api/v1/search'',
        JDict [(''accounts'', JList []), (''statuses'', JList []), (''hashtags'', JList [])])]"

text \<open>The dict of the last branch of \<^verbatim>\<open>do_GET\<close>.\<close>

definition welcome_payload :: json where
  "welcome_payload =
     JDict [(''message'', JStr ''Welcome to Rustodon Test Server''),
            (''endpoints'',
               JList (map JStr [''/health'', ''/api/v1/instance'', ''/api/v1/timelines/public'',
                                ''/api/v1/accounts/1'', ''/api/v1/search?q=test'']))]"

text \<open>
  The conditions under which the last branch of \<^verbatim>\<open>do_GET\<close>, and of \<^verbatim>\<open>do_POST\<close>, runs:
  every test of the chain fails.
\<close>

definition GET_unmatched :: "string \<Rightarrow> bool" where
  "GET_unmatched path \<longleftrightarrow>
     path \<noteq> ''/health'' \<and> path \<noteq> ''/api/v1/instance'' \<and> path \<noteq> ''/api/v1/timelines/public''
     \<and> \<not> startswith path ''/api/v1/accounts/'' \<and> \<not> startswith path ''/api/v1/search''"

definition POST_unmatched :: "string \<Rightarrow> bool" where
  "POST_unmatched path \<longleftrightarrow>
     path \<noteq> ''/api/v1/auth/register'' \<and> path \<noteq> ''/api/v1/auth/login''
     \<and> path \<noteq> ''/api/v1/statuses'' \<and> path \<noteq> ''/api/v1/media''
     \<and> path \<noteq> ''/api/v1/notifications''
     \<and> \<not> endswith path ''/follow'' \<and> \<not> endswith path ''/unfollow''
     \<and> \<not> endswith path ''/favourite'' \<and> \<not> endswith path ''/unfavourite''
     \<and> \<not> endswith path ''/reblog'' \<and> \<not> endswith path ''/unreblog''
     \<and> path \<noteq> ''/api/v1/lists'' \<and> path \<noteq> ''/api/v1/conversations''
     \<and> path \<noteq> ''/api/v1/bookmarks'' \<and> path \<noteq> ''/api/v1/mutes''
     \<and> path \<noteq> ''/api/v1/blocks'' \<and> path \<noteq> ''/api/v1/reports''
     \<and> path \<noteq> ''/api/v1/filters''"

section \<open>Facts about the path tests\<close>

text \<open>Two literals that both start (or both end) a path are comparable.\<close>

lemma startswith_exclusive:
  "startswith path a \<Longrightarrow> startswith path b \<Longrightarrow> startswith a b \<or> startswith b a"
  unfolding startswith_def by (rule prefix_same_cases)

lemma endswith_exclusive:
  "endswith path a \<Longrightarrow> endswith path b \<Longrightarrow> endswith b a \<or> endswith a b"
  unfolding endswith_def by (rule suffix_same_cases)

lemma startswith_literal: "startswith path pre \<Longrightarrow> path = lit \<Longrightarrow> startswith lit pre"
  by simp

lemma endswith_literal: "endswith path suf \<Longrightarrow> path = lit \<Longrightarrow> endswith lit suf"
  by simp

text \<open>A path that passes a prefix test of \<^verbatim>\<open>do_GET\<close> is none of its three exact paths.\<close>

lemma prefix_rule_not_exact:
  assumes "startswith path pre"
    and "pre \<in> {''/api/v1/accounts/'', ''/api/v1/search''}"
  shows "path \<noteq> ''/health'' \<and> path \<noteq> ''/api/v1/instance''
         \<and> path \<noteq> ''/api/v1/timelines/public''"
proof -
  have "\<not> startswith lit pre"
    if "lit \<in> {''/health'', ''/api/v1/instance'', ''/api/v1/timelines/public''}" for lit
    using that assms(2) by (auto simp: startswith_def)
  with startswith_literal [OF assms(1)] show ?thesis
    by blast
qed

lemma search_not_accounts:
  assumes "startswith path ''/api/v1/search''"
  shows "\<not> startswith path ''/api/v1/accounts/''"
proof
  assume "startswith path ''/api/v1/accounts/''"
  from startswith_exclusive [OF assms this] show False
    by (simp add: startswith_def)
qed

lemma do_GET_accounts:
  assumes "startswith path ''/api/v1/accounts/''"
  shows "body (do_GET now path) =
     JDict [(''id'', JStr ''1''), (''username'', JStr ''testuser''),
            (''display_name'', JStr ''Test User''), (''created_at'', JStr ''2025-01-01T00:00:00Z'')]"
  using assms prefix_rule_not_exact [OF assms]
  by (simp add: do_GET_def)

lemma do_GET_search:
  assumes "startswith path ''/api/v1/search''"
  shows "body (do_GET now path) =
     JDict [(''accounts'', JList []), (''statuses'', JList []), (''hashtags'', JList [])]"
  using assms prefix_rule_not_exact [OF assms] search_not_accounts [OF assms]
  by (simp add: do_GET_def)

text \<open>
  A path that passes a suffix test of \<^verbatim>\<open>do_POST\<close> is none of the five exact paths
  tested before the suffixes.
\<close>

lemma suffix_rule_not_early_exact:
  assumes "endswith path suf"
    and "suf \<in> {''/follow'', ''/unfollow'', ''/favourite'', ''/unfavourite'',
                 ''/reblog'', ''/unreblog''}"
  shows "path \<noteq> ''/api/v1/auth/register'' \<and> path \<noteq> ''/api/v1/auth/login''
         \<and> path \<noteq> ''/api/v1/statuses'' \<and> path \<noteq> ''/api/v1/media''
         \<and> path \<noteq> ''/api/v1/notifications''"
proof -
  have "\<not> endswith lit suf"
    if "lit \<in> {''/api/v1/auth/register'', ''/api/v1/auth/login'', ''/api/v1/statuses'',
                ''/api/v1/media'', ''/api/v1/notifications''}" for lit
    using that assms(2) by (auto simp: endswith_def suffix_to_prefix)
  with endswith_literal [OF assms(1)] show ?thesis
    by blast
qed

text \<open>
  A path that ends with one literal does not end with another, unless one of the two
  literals ends with the other.
\<close>

lemma endswith_clash:
  assumes "endswith path a" and "\<not> endswith a b" and "\<not> endswith b a"
  shows "\<not> endswith path b"
  using endswith_exclusive [OF assms(1), of b] assms(2,3) by blast

section \<open>Properties\<close>

text \<open>
  C1. For either method and every path the response has status 200 (so neither 404 nor any
  other error status), its body is a JSON object, and its headers include
  Content-type: application/json and Access-Control-Allow-Origin: *.
\<close>

theorem C1_always_200_json_cors:
  "status (handle_request m now path) = 200
   \<and> status (handle_request m now path) \<noteq> 404
   \<and> \<not> 400 \<le> status (handle_request m now path)
   \<and> (\<exists>kvs. body (handle_request m now path) = JDict kvs)
   \<and> (''Content-type'', ''application/json'') \<in> set (headers (handle_request m now path))
   \<and> (''Access-Control-Allow-Origin'', ''*'') \<in> set (headers (handle_request m now path))"
  by (cases m) (simp_all add: do_GET_def do_POST_def)

text \<open>
  C2. For every POST path the body that \<^verbatim>\<open>do_POST\<close> sends is the one the table of the
  specification gives: the twelve exact rules first, then the six suffix rules, then the
  fallback, the first matching rule winning.
\<close>

theorem C2_post_priority_order:
  "body (do_POST now path) = spec_POST now path"
  by (auto simp: do_POST_def spec_POST_def spec_POST_rules_def endswith_def suffix_to_prefix)

text \<open>
  C3. The key set of the GET body is exactly the documented one: for /health, for
  /api/v1/instance, for /api/v1/timelines/public, for every path that starts with
  /api/v1/accounts/ and for every path that starts with /api/v1/search. The five rules are
  tried in this order, the first match winning.
\<close>

theorem C3_get_key_sets:
  "set (keys_of (body (do_GET now ''/health''))) = {''status'', ''message'', ''timestamp''}
   \<and> set (keys_of (body (do_GET now ''/api/v1/instance''))) =
       {''version'', ''name'', ''description''}
   \<and> set (keys_of (body (do_GET now ''/api/v1/timelines/public''))) =
       {''statuses'', ''next'', ''prev''}
   \<and> (startswith path ''/api/v1/accounts/'' \<longrightarrow>
        set (keys_of (body (do_GET now path))) =
          {''id'', ''username'', ''display_name'', ''created_at''})
   \<and> (startswith path ''/api/v1/search'' \<longrightarrow>
        set (keys_of (body (do_GET now path))) = {''accounts'', ''statuses'', ''hashtags''})
   \<and> body (do_GET now path) = first_match (spec_GET_rules now) welcome_payload path"
  by (simp add: do_GET_accounts do_GET_search)
     (simp add: do_GET_def spec_GET_rules_def welcome_payload_def)

theorem C3_get_key_sets_witness:
  "startswith ''/api/v1/accounts/123'' ''/api/v1/accounts/''
   \<and> set (keys_of (body (do_GET ''2025-06-01T12:00:00.000001'' ''/api/v1/accounts/123''))) =
       {''id'', ''username'', ''display_name'', ''created_at''}
   \<and> startswith ''/api/v1/search?q=test'' ''/api/v1/search''
   \<and> set (keys_of (body (do_GET ''2025-06-01T12:00:00.000001'' ''/api/v1/search?q=test''))) =
       {''accounts'', ''statuses'', ''hashtags''}"
proof -
  have a: "startswith ''/api/v1/accounts/123'' ''/api/v1/accounts/''"
    and s: "startswith ''/api/v1/search?q=test'' ''/api/v1/search''"
    by (simp_all add: startswith_def)
  note k1 = C3_get_key_sets [where now = "''2025-06-01T12:00:00.000001''"
      and path = "''/api/v1/accounts/123''",
      THEN conjunct2, THEN conjunct2, THEN conjunct2, THEN conjunct1, THEN mp, OF a]
  note k2 = C3_get_key_sets [where now = "''2025-06-01T12:00:00.000001''"
      and path = "''/api/v1/search?q=test''",
      THEN conjunct2, THEN conjunct2, THEN conjunct2, THEN conjunct2, THEN conjunct1,
      THEN mp, OF s]
  show ?thesis
    by (intro conjI a s k1 k2)
qed

text \<open>
  C4. A GET path that fails all five tests of \<^verbatim>\<open>do_GET\<close> gets the welcome dict, whose
  keys are exactly message and endpoints, endpoints being the list of the five endpoint
  strings. A POST path that fails all eighteen tests of \<^verbatim>\<open>do_POST\<close> gets exactly
  {"error": "Endpoint not implemented", "path": p}, p being the path as received. The two
  bodies have different shapes: they share no key.
\<close>

theorem C4_unmatched_shapes:
  "(GET_unmatched p \<longrightarrow>
      body (do_GET now p) = welcome_payload
      \<and> set (keys_of (body (do_GET now p))) = {''message'', ''endpoints''})
   \<and> (POST_unmatched q \<longrightarrow>
      body (do_POST now' q) =
        JDict [(''error'', JStr ''Endpoint not implemented''), (''path'', JStr q)])
   \<and> (GET_unmatched p \<and> POST_unmatched q \<longrightarrow>
      body (do_GET now p) \<noteq> body (do_POST now' q)
      \<and> set (keys_of (body (do_GET now p))) \<inter> set (keys_of (body (do_POST now' q))) = {})"
proof -
  have g: "body (do_GET now p) = welcome_payload" if "GET_unmatched p"
    using that by (simp add: do_GET_def GET_unmatched_def welcome_payload_def)
  have k: "set (keys_of welcome_payload) = {''message'', ''endpoints''}"
    by (simp add: welcome_payload_def)
  have h: "body (do_POST now' q) =
        JDict [(''error'', JStr ''Endpoint not implemented''), (''path'', JStr q)]"
    if "POST_unmatched q"
    using that by (simp add: do_POST_def POST_unmatched_def)
  have d: "welcome_payload \<noteq>
        JDict [(''error'', JStr ''Endpoint not implemented''), (''path'', JStr q)]"
    by (simp add: welcome_payload_def)
  have i: "set (keys_of welcome_payload) \<inter>
        set (keys_of (JDict [(''error'', JStr ''Endpoint not implemented''), (''path'', JStr q)]))
        = {}"
    by (simp add: welcome_payload_def)
  show ?thesis
    using g h k d i by (simp del: keys_of.simps)
qed

theorem C4_unmatched_shapes_witness:
  "GET_unmatched ''/unknown/path''
   \<and> body (do_GET ''2025-06-01T12:00:00.000001'' ''/unknown/path'') = welcome_payload
   \<and> POST_unmatched ''/unknown/path''
   \<and> body (do_POST ''2025-06-01T12:00:00.000001'' ''/unknown/path'') =
        JDict [(''error'', JStr ''Endpoint not implemented''), (''path'', JStr ''/unknown/path'')]
   \<and> body (do_GET ''2025-06-01T12:00:00.000001'' ''/unknown/path'') \<noteq>
        body (do_POST ''2025-06-01T12:00:00.000001'' ''/unknown/path'')"
proof -
  have g: "GET_unmatched ''/unknown/path''"
    by (simp add: GET_unmatched_def startswith_def)
  have p: "POST_unmatched ''/unknown/path''"
    by (simp add: POST_unmatched_def endswith_def suffix_to_prefix)
  note t = C4_unmatched_shapes [where p = "''/unknown/path''" and q = "''/unknown/path''"
      and now = "''2025-06-01T12:00:00.000001''" and now' = "''2025-06-01T12:00:00.000001''"]
  note w1 = t [THEN conjunct1, THEN mp, OF g, THEN conjunct1]
  note w2 = t [THEN conjunct2, THEN conjunct1, THEN mp, OF p]
  note w3 = t [THEN conjunct2, THEN conjunct2, THEN mp, OF conjI [OF g p], THEN conjunct1]
  show ?thesis
    by (intro conjI g p w1 w2 w3)
qed

text \<open>
  C5. A POST to any path that ends with /follow returns exactly
  {"message": "Follow successful"}, whatever stands before /follow: nothing, or a prefix
  that looks like another endpoint.
\<close>

theorem C5_follow_suffix:
  "endswith path ''/follow'' \<Longrightarrow>
   body (do_POST now path) = JDict [(''message'', JStr ''Follow successful'')]"
  using suffix_rule_not_early_exact [of path "''/follow''"]
  by (simp add: do_POST_def)

theorem C5_follow_suffix_witness:
  "endswith ''/follow'' ''/follow''
   \<and> body (do_POST ''2025-06-01T12:00:00.000001'' ''/follow'') =
        JDict [(''message'', JStr ''Follow successful'')]
   \<and> endswith ''/api/v1/statuses/follow'' ''/follow''
   \<and> body (do_POST ''2025-06-01T12:00:00.000001'' ''/api/v1/statuses/follow'') =
        JDict [(''message'', JStr ''Follow successful'')]"
proof -
  have a: "endswith ''/follow'' ''/follow''"
    and b: "endswith ''/api/v1/statuses/follow'' ''/follow''"
    by (simp_all add: endswith_def suffix_to_prefix)
  show ?thesis
    by (intro conjI a b C5_follow_suffix [OF a] C5_follow_suffix [OF b])
qed

text \<open>
  C6. For any two strings s and t, the GET responses for /api/v1/accounts/ followed by s
  and by t are the same response, and the body of both is the fixed account dict: what
  follows the prefix has no influence.
\<close>

theorem C6_accounts_suffix_ignored:
  "do_GET now (''/api/v1/accounts/'' @ s) = do_GET now' (''/api/v1/accounts/'' @ t)
   \<and> body (do_GET now (''/api/v1/accounts/'' @ s)) =
       JDict [(''id'', JStr ''1''), (''username'', JStr ''testuser''),
              (''display_name'', JStr ''Test User''),
              (''created_at'', JStr ''2025-01-01T00:00:00Z'')]
   \<and> body (do_GET now' (''/api/v1/accounts/'' @ t)) =
       JDict [(''id'', JStr ''1''), (''username'', JStr ''testuser''),
              (''display_name'', JStr ''Test User''),
              (''created_at'', JStr ''2025-01-01T00:00:00Z'')]"
  by (simp add: do_GET_def startswith_def)

text \<open>
  C7. A GET whose raw path is /api/v1/search?q=test, and any GET whose raw path starts
  with /api/v1/search (the query string is part of what is matched), returns exactly
  {"accounts": [], "statuses": [], "hashtags": []}.
\<close>

theorem C7_search_prefix_with_query:
  "body (do_GET now ''/api/v1/search?q=test'') =
     JDict [(''accounts'', JList []), (''statuses'', JList []), (''hashtags'', JList [])]
   \<and> (startswith path ''/api/v1/search'' \<longrightarrow>
        body (do_GET now path) =
          JDict [(''accounts'', JList []), (''statuses'', JList []), (''hashtags'', JList [])])"
  by (simp add: do_GET_search) (simp add: do_GET_def startswith_def)

theorem C7_search_prefix_with_query_witness:
  "startswith ''/api/v1/search/accounts?q=a&limit=5'' ''/api/v1/search''
   \<and> body (do_GET ''2025-06-01T12:00:00.000001'' ''/api/v1/search/accounts?q=a&limit=5'') =
        JDict [(''accounts'', JList []), (''statuses'', JList []), (''hashtags'', JList [])]"
proof -
  have a: "startswith ''/api/v1/search/accounts?q=a&limit=5'' ''/api/v1/search''"
    by (simp add: startswith_def)
  note w = C7_search_prefix_with_query [where now = "''2025-06-01T12:00:00.000001''"
      and path = "''/api/v1/search/accounts?q=a&limit=5''", THEN conjunct2, THEN mp, OF a]
  show ?thesis
    by (intro conjI a w)
qed

text \<open>
  C8. The dispatcher is deterministic: with the same clock reading, the same method and
  path give the same response. For every GET path but /health and every POST path but
  /api/v1/statuses the response does not depend on the clock at all. At these two paths the
  clock reading is the value of the field timestamp (of created-at) and of nothing else.
\<close>

theorem C8_deterministic_up_to_timestamps:
  "(t1 = t2 \<longrightarrow> handle_request m t1 path = handle_request m t2 path)
   \<and> (path \<noteq> ''/health'' \<longrightarrow> do_GET t1 path = do_GET t2 path)
   \<and> (path \<noteq> ''/api/v1/statuses'' \<longrightarrow> do_POST t1 path = do_POST t2 path)
   \<and> do_GET t1 ''/health'' =
        \<lparr> status = 200,
          headers = [(''Content-type'', ''application/json''),
                     (''Access-Control-Allow-Origin'', ''*'')],
          body = JDict [(''status'', JStr ''ok''), (''message'', JStr ''Health check passed''),
                        (''timestamp'', JStr t1)] \<rparr>
   \<and> do_POST t1 ''/api/v1/statuses'' =
        \<lparr> status = 200,
          headers = [(''Content-type'', ''application/json''),
                     (''Access-Control-Allow-Origin'', ''*'')],
          body = JDict [(''id'', JStr ''1''), (''content'', JStr ''Test status''),
                        (''created_at'', JStr t1)] \<rparr>"
  by (simp add: do_GET_def do_POST_def)

theorem C8_deterministic_up_to_timestamps_witness:
  "handle_request POST ''2025-06-01T12:00:00.000001'' ''/api/v1/statuses'' =
     handle_request POST ''2025-06-01T12:00:00.000001'' ''/api/v1/statuses''
   \<and> ''/api/v1/instance'' \<noteq> ''/health''
   \<and> do_GET ''2025-06-01T12:00:00.000001'' ''/api/v1/instance'' =
       do_GET ''2026-11-04T09:30:15'' ''/api/v1/instance''
   \<and> ''/api/v1/media'' \<noteq> ''/api/v1/statuses''
   \<and> do_POST ''2025-06-01T12:00:00.000001'' ''/api/v1/media'' =
       do_POST ''2026-11-04T09:30:15'' ''/api/v1/media''"
proof -
  have a: "''/api/v1/instance'' \<noteq> ''/health''"
    and b: "''/api/v1/media'' \<noteq> ''/api/v1/statuses''"
    by simp_all
  note d = C8_deterministic_up_to_timestamps [where ?t1.0 = "''2025-06-01T12:00:00.000001''"
      and ?t2.0 = "''2025-06-01T12:00:00.000001''" and m = POST and path = "''/api/v1/statuses''", THEN conjunct1, THEN mp, OF refl]
  note g = C8_deterministic_up_to_timestamps [where ?t1.0 = "''2025-06-01T12:00:00.000001''"
      and ?t2.0 = "''2026-11-04T09:30:15''" and path = "''/api/v1/instance''",
      THEN conjunct2, THEN conjunct1, THEN mp, OF a]
  note p = C8_deterministic_up_to_timestamps [where ?t1.0 = "''2025-06-01T12:00:00.000001''"
      and ?t2.0 = "''2026-11-04T09:30:15''" and path = "''/api/v1/media''",
      THEN conjunct2, THEN conjunct2, THEN conjunct1, THEN mp, OF b]
  show ?thesis
    by (intro conjI a b d g p)
qed

text \<open>
  C9. The exact tests compare the whole raw path, query string included: /health,
  /api/v1/instance or /api/v1/timelines/public followed by a non-empty query suffix (by any
  non-empty string) is not the exact path and gets the welcome dict of the last branch.
\<close>

theorem C9_exact_rules_reject_query:
  "q \<noteq> [] \<Longrightarrow>
   ''/health'' @ q \<noteq> ''/health''
   \<and> body (do_GET now (''/health'' @ q)) = welcome_payload
   \<and> ''/api/v1/instance'' @ q \<noteq> ''/api/v1/instance''
   \<and> body (do_GET now (''/api/v1/instance'' @ q)) = welcome_payload
   \<and> ''/api/v1/timelines/public'' @ q \<noteq> ''/api/v1/timelines/public''
   \<and> body (do_GET now (''/api/v1/timelines/public'' @ q)) = welcome_payload"
  by (simp add: do_GET_def startswith_def welcome_payload_def)

theorem C9_exact_rules_reject_query_witness:
  "''?x=1'' \<noteq> []
   \<and> body (do_GET ''2025-06-01T12:00:00.000001'' ''/health?x=1'') = welcome_payload
   \<and> body (do_GET ''2025-06-01T12:00:00.000001'' ''/api/v1/instance?x=1'') = welcome_payload
   \<and> body (do_GET ''2025-06-01T12:00:00.000001'' ''/api/v1/timelines/public?x=1'') =
       welcome_payload"
proof -
  have a: "''?x=1'' \<noteq> []" by simp
  from C9_exact_rules_reject_query [OF a, where now = "''2025-06-01T12:00:00.000001''"]
  show ?thesis by simp
qed

text \<open>
  C10. A POST to a path that ends with /unfollow returns {"message": "Unfollow successful"},
  one that ends with /unfavourite returns {"message": "Unfavourite successful"}, and one
  that ends with /unreblog returns {"message": "Unreblog successful"}. The tests for
  /follow, /favourite and /reblog, which come first, do not capture these paths: the
  literals begin with the slash, and a path that ends with /unfollow does not end with
  /follow (likewise for the other two).
\<close>

theorem C10_un_suffixes_not_captured:
  "(endswith path ''/unfollow'' \<longrightarrow>
      body (do_POST now path) = JDict [(''message'', JStr ''Unfollow successful'')]
      \<and> \<not> endswith path ''/follow'')
   \<and> (endswith path ''/unfavourite'' \<longrightarrow>
      body (do_POST now path) = JDict [(''message'', JStr ''Unfavourite successful'')]
      \<and> \<not> endswith path ''/favourite'')
   \<and> (endswith path ''/unreblog'' \<longrightarrow>
      body (do_POST now path) = JDict [(''message'', JStr ''Unreblog successful'')]
      \<and> \<not> endswith path ''/reblog'')"
proof (intro conjI impI)
  assume a: "endswith path ''/unfollow''"
  show "\<not> endswith path ''/follow''"
    by (rule endswith_clash [OF a]) (simp_all add: endswith_def suffix_to_prefix)
  with a suffix_rule_not_early_exact [OF a]
  show "body (do_POST now path) = JDict [(''message'', JStr ''Unfollow successful'')]"
    by (simp add: do_POST_def)
next
  assume a: "endswith path ''/unfavourite''"
  have n: "\<not> endswith path ''/follow''" "\<not> endswith path ''/unfollow''"
    by (rule endswith_clash [OF a]; simp add: endswith_def suffix_to_prefix)+
  show f: "\<not> endswith path ''/favourite''"
    by (rule endswith_clash [OF a]) (simp_all add: endswith_def suffix_to_prefix)
  with a n suffix_rule_not_early_exact [OF a]
  show "body (do_POST now path) = JDict [(''message'', JStr ''Unfavourite successful'')]"
    by (simp add: do_POST_def)
next
  assume a: "endswith path ''/unreblog''"
  have n: "\<not> endswith path ''/follow''" "\<not> endswith path ''/unfollow''"
    "\<not> endswith path ''/favourite''" "\<not> endswith path ''/unfavourite''"
    by (rule endswith_clash [OF a]; simp add: endswith_def suffix_to_prefix)+
  show r: "\<not> endswith path ''/reblog''"
    by (rule endswith_clash [OF a]) (simp_all add: endswith_def suffix_to_prefix)
  with a n suffix_rule_not_early_exact [OF a]
  show "body (do_POST now path) = JDict [(''message'', JStr ''Unreblog successful'')]"
    by (simp add: do_POST_def)
qed

theorem C10_un_suffixes_not_captured_witness:
  "endswith ''/api/v1/accounts/1/unfollow'' ''/unfollow''
   \<and> body (do_POST ''2025-06-01T12:00:00.000001'' ''/api/v1/accounts/1/unfollow'') =
        JDict [(''message'', JStr ''Unfollow successful'')]
   \<and> endswith ''/api/v1/statuses/1/unfavourite'' ''/unfavourite''
   \<and> body (do_POST ''2025-06-01T12:00:00.000001'' ''/api/v1/statuses/1/unfavourite'') =
        JDict [(''message'', JStr ''Unfavourite successful'')]
   \<and> endswith ''/api/v1/statuses/1/unreblog'' ''/unreblog''
   \<and> body (do_POST ''2025-06-01T12:00:00.000001'' ''/api/v1/statuses/1/unreblog'') =
        JDict [(''message'', JStr ''Unreblog successful'')]"
proof -
  have a: "endswith ''/api/v1/accounts/1/unfollow'' ''/unfollow''"
    and b: "endswith ''/api/v1/statuses/1/unfavourite'' ''/unfavourite''"
    and c: "endswith ''/api/v1/statuses/1/unreblog'' ''/unreblog''"
    by (simp_all add: endswith_def suffix_to_prefix)
  note t = C10_un_suffixes_not_captured [where now = "''2025-06-01T12:00:00.000001''"]
  note w1 = t [where path = "''/api/v1/accounts/1/unfollow''",
      THEN conjunct1, THEN mp, OF a, THEN conjunct1]
  note w2 = t [where path = "''/api/v1/statuses/1/unfavourite''",
      THEN conjunct2, THEN conjunct1, THEN mp, OF b, THEN conjunct1]
  note w3 = t [where path = "''/api/v1/statuses/1/unreblog''",
      THEN conjunct2, THEN conjunct2, THEN mp, OF c, THEN conjunct1]
  show ?thesis
    by (intro conjI a b c w1 w2 w3)
qed

end
